theory Spec2Isabelle
  imports Main "HOL-Library.Sublist"
begin

section \<open>Python values used by \<open>ui.py\<close>\<close>

text \<open>
  A Python \<open>str\<close> is a sequence of Unicode code points, so it is modelled as a list of
  naturals. \<open>lit\<close> turns an ASCII literal into such a string; the two non-ASCII characters
  of the prompt template are written as code points.
\<close>

type_synonym pystr = "nat list"

definition lit :: "string \<Rightarrow> pystr" where
  "lit s = map of_char s"

definition nl :: pystr where
  "nl = [10]"

definition em_dash :: pystr where
  "em_dash = [8212]"

definition right_quote :: pystr where
  "right_quote = [8217]"

text \<open>\<open>str(n)\<close> for a non-negative integer: its decimal digits.\<close>

fun str_nat :: "nat \<Rightarrow> pystr" where
  "str_nat n = (if n < 10 then [48 + n] else str_nat (n div 10) @ [48 + n mod 10])"

declare str_nat.simps [simp del]

text \<open>
  \<open>str.isspace\<close> on one code point: the table of CPython's \<open>_PyUnicode_IsWhitespace\<close>.
  \<open>str.strip()\<close> removes the longest run of such characters from each end.
\<close>

definition py_isspace :: "nat \<Rightarrow> bool" where
  "py_isspace c \<longleftrightarrow>
     (9 \<le> c \<and> c \<le> 13) \<or> (28 \<le> c \<and> c \<le> 32) \<or> c = 133 \<or> c = 160 \<or> c = 5760 \<or>
     (8192 \<le> c \<and> c \<le> 8202) \<or> c = 8232 \<or> c = 8233 \<or> c = 8239 \<or> c = 8287 \<or> c = 12288"

definition strip :: "pystr \<Rightarrow> pystr" where
  "strip s = rev (dropWhile py_isspace (rev (dropWhile py_isspace s)))"

text \<open>\<open>sep.join(xs)\<close>.\<close>

fun join :: "pystr \<Rightarrow> pystr list \<Rightarrow> pystr" where
  "join sep [] = []"
| "join sep [x] = x"
| "join sep (x # y # ys) = x @ sep @ join sep (y # ys)"

datatype py_error = IndexError

definition py_index :: "'a list \<Rightarrow> nat \<Rightarrow> py_error + 'a" where
  "py_index xs i = (if i < length xs then Inr (xs ! i) else Inl IndexError)"

section \<open>Data model\<close>

text \<open>The fixed question list.\<close>

definition questions :: "pystr list" where
  "questions =
    [lit ''What is your name?'',
     lit ''What is your professional background?'',
     lit ''What are your technical skills?'',
     lit ''What are your strengths?'',
     lit ''What are your weaknesses?'',
     lit ''Describe a challenging project you completed.'',
     lit ''What are your career goals?'',
     lit ''How do you handle stress?'',
     lit ''How do you work in a team?'',
     lit ''Why should we hire you?'']"

text \<open>
  The graph state is a dictionary; the only key the program reads or writes is
  \<open>"answers"\<close>, holding a list of strings. \<open>get_answers\<close> is
  \<open>state.get("answers", [])\<close>.
\<close>

type_synonym gstate = "pystr \<rightharpoonup> pystr list"

definition get_answers :: "gstate \<Rightarrow> pystr list" where
  "get_answers state = (case state (lit ''answers'') of None \<Rightarrow> [] | Some a \<Rightarrow> a)"

text \<open>One transcript entry, \<open>{"role": ..., "content": ...}\<close>.\<close>

record message =
  role :: pystr
  content :: pystr

text \<open>The fields of \<open>st.session_state\<close>.\<close>

record session =
  graph_state :: gstate
  chat_history :: "message list"
  interview_complete :: bool
  report_generated :: bool
  interview_started :: bool

definition init_session :: session where
  "init_session =
     \<lparr>graph_state = [lit ''answers'' \<mapsto> []], chat_history = [],
      interview_complete = False, report_generated = False, interview_started = False\<rparr>"

text \<open>
  The external model call \<open>llm.invoke(prompt).content\<close>: either it returns the text
  (\<open>Inr\<close>), or it raises an \<open>Exception\<close> whose \<open>str\<close> is given (\<open>Inl\<close>).
\<close>

type_synonym llm = "pystr \<Rightarrow> pystr + pystr"

section \<open>The three nodes and the completion check\<close>

text \<open>
  The nodes read and append to \<open>st.session_state.chat_history\<close>; the session is passed
  in and returned next to the node's own return value.
\<close>

definition ask_question_logic :: "gstate \<Rightarrow> session \<Rightarrow> gstate \<times> session" where
  "ask_question_logic state s =
     (let num_answers = length (get_answers state) in
      if num_answers < length questions then
        (let question_text = questions ! num_answers in
         if chat_history s = [] \<or>
            \<not> (role (last (chat_history s)) = lit ''bot'' \<and>
               suffix question_text (content (last (chat_history s))))
         then (state, s\<lparr>chat_history := chat_history s @
                 [\<lparr>role = lit ''bot'',
                   content = lit ''**Q'' @ str_nat (num_answers + 1) @ lit '':** '' @ question_text\<rparr>]\<rparr>)
         else (state, s))
      else (state, s))"

definition collect_answer_logic :: "gstate \<Rightarrow> pystr \<Rightarrow> session \<Rightarrow> gstate \<times> session" where
  "collect_answer_logic state user_input s =
     (let answer = strip user_input in
      if answer \<noteq> [] then
        (let current_answers = get_answers state @ [answer];
             s' = s\<lparr>chat_history := chat_history s @ [\<lparr>role = lit ''user'', content = answer\<rparr>]\<rparr>;
             new_state = state(lit ''answers'' \<mapsto> current_answers)
         in (new_state, s'))
      else (state, s))"

definition check_completion_condition :: "gstate \<Rightarrow> pystr" where
  "check_completion_condition state =
     (let num_answers = length (get_answers state) in
      if num_answers \<ge> length questions then lit ''generate_report'' else lit ''ask_question'')"

text \<open>
  The list comprehension of the report generator, over the indices \<open>range(len(answers))\<close>.
  \<open>questions[i]\<close> raises \<open>IndexError\<close> beyond the tenth index.
\<close>

fun qa_blocks :: "pystr list \<Rightarrow> nat list \<Rightarrow> py_error + pystr list" where
  "qa_blocks answers [] = Inr []"
| "qa_blocks answers (i # is) =
     (case py_index questions i of
        Inl e \<Rightarrow> Inl e
      | Inr q \<Rightarrow>
         (case py_index answers i of
            Inl e \<Rightarrow> Inl e
          | Inr a \<Rightarrow>
             (case qa_blocks answers is of
                Inl e \<Rightarrow> Inl e
              | Inr bs \<Rightarrow>
                 Inr ((lit ''Q'' @ str_nat (i + 1) @ lit '': '' @ q @ nl @
                       lit ''A'' @ str_nat (i + 1) @ lit '': '' @ a) # bs))))"

text \<open>The five numbered lines of the template.\<close>

definition instruction_lines :: "pystr list" where
  "instruction_lines =
    [lit ''1. **Introduction** '' @ em_dash @
       lit '' Briefly introduce the candidate and the interview context.'',
     lit ''2. **Strengths** '' @ em_dash @
       lit '' Highlight key strengths observed from the responses.'',
     lit ''3. **Weaknesses or Areas for Improvement** '' @ em_dash @
       lit '' Mention any concerns or gaps noted during the interview.'',
     lit ''4. **Overall Impression** '' @ em_dash @
       lit '' Summarize how the candidate presented themselves professionally.'',
     lit ''5. **Recommendation** '' @ em_dash @
       lit '' Conclude with your recommendation on the candidate'' @ right_quote @
       lit ''s suitability for the role (e.g., move forward to next round, strong hire, needs more evaluation, etc.).'']"

definition prompt_intro :: pystr where
  "prompt_intro =
     lit ''You are an experienced HR specialist responsible for evaluating job candidates after structured interviews. Below are the candidate's responses to a series of interview questions. Your task is to write a well-structured, formal 5-paragraph evaluation report. This report should reflect the candidate's communication skills, professional experience, critical thinking, and cultural fit for the role.''"

text \<open>The f-string of the prompt, line by line.\<close>

definition prompt_template :: "pystr \<Rightarrow> pystr" where
  "prompt_template formatted_answers =
     nl @ prompt_intro @ nl @
     nl @
     lit ''Please ensure the report includes:'' @ nl @
     nl @
     join nl instruction_lines @ nl @
     nl @
     lit ''Interview Responses:'' @ nl @
     formatted_answers @ nl"

text \<open>
  The prompt of the report generator for a list of answers: the formatted pairs inside
  the template, or the \<open>IndexError\<close> of the comprehension.
\<close>

definition report_prompt :: "pystr list \<Rightarrow> py_error + pystr" where
  "report_prompt answers =
     (case qa_blocks answers [0..<length answers] of
        Inl e \<Rightarrow> Inl e
      | Inr blocks \<Rightarrow> (let formatted_answers = join nl blocks in Inr (prompt_template formatted_answers)))"

text \<open>
  The report generator. The third component of the result lists the prompts sent to the
  external model during the call, in order.
\<close>

definition generate_report_logic ::
    "llm \<Rightarrow> gstate \<Rightarrow> session \<Rightarrow> py_error + (gstate \<times> session \<times> pystr list)" where
  "generate_report_logic model state s =
     (let answers = get_answers state in
      if answers = [] then
        Inr (state,
             s\<lparr>chat_history := chat_history s @
                [\<lparr>role = lit ''bot'',
                  content = lit ''No answers collected. Cannot generate report.''\<rparr>]\<rparr>,
             [])
      else
        (case report_prompt answers of
           Inl e \<Rightarrow> Inl e
         | Inr prompt \<Rightarrow>
            (case model prompt of
               Inr report_content \<Rightarrow>
                 Inr (state,
                      s\<lparr>chat_history := chat_history s @
                         [\<lparr>role = lit ''bot'',
                           content = lit ''### Final Evaluation Report:'' @ nl @ report_content\<rparr>]\<rparr>,
                      [prompt])
             | Inl e \<Rightarrow>
                 Inr (state,
                      s\<lparr>chat_history := chat_history s @
                         [\<lparr>role = lit ''bot'',
                           content = lit ''Error generating report: '' @ e\<rparr>]\<rparr>,
                      [prompt]))))"

section \<open>The Streamlit flow\<close>

text \<open>
  One run of the script is triggered by one event: a plain rerun, a submission in the chat
  input, or a click on the reset button. A run ends by \<open>st.rerun()\<close>, by reaching the end
  of the script, or by an uncaught exception; the session keeps what was written to it.
\<close>

datatype event = NoInput | Submit pystr | ResetClick

datatype outcome = Rerun | Finished | Crashed py_error

definition chat_input :: "event \<Rightarrow> pystr option" where
  "chat_input ev = (case ev of Submit t \<Rightarrow> Some t | _ \<Rightarrow> None)"

definition button :: "event \<Rightarrow> bool" where
  "button ev = (case ev of ResetClick \<Rightarrow> True | _ \<Rightarrow> False)"

text \<open>The body of the reset button's branch.\<close>

definition reset_session :: "session \<Rightarrow> session" where
  "reset_session s =
     s\<lparr>graph_state := [lit ''answers'' \<mapsto> []],
       chat_history := [],
       interview_complete := False,
       report_generated := False,
       interview_started := False\<rparr>"

text \<open>The end of the script: the completion message and the reset button.\<close>

definition reset_button :: "event \<Rightarrow> session \<Rightarrow> outcome \<times> session" where
  "reset_button ev s = (if button ev then (Rerun, reset_session s) else (Finished, s))"

definition run_script :: "llm \<Rightarrow> event \<Rightarrow> session \<Rightarrow> outcome \<times> session" where
  "run_script model ev s =
     (let current_graph_state = graph_state s;
          num_answers = length (get_answers current_graph_state);
          total_questions = length questions
      in
      if \<not> interview_started s \<and> \<not> interview_complete s then
        (Rerun, snd (ask_question_logic current_graph_state (s\<lparr>interview_started := True\<rparr>)))
      else
        (let interview_is_complete = (num_answers \<ge> total_questions);
             current_phase = check_completion_condition current_graph_state
         in
         if current_phase = lit ''ask_question'' then
           (if \<not> interview_is_complete then
              (case chat_input ev of
                 Some user_answer \<Rightarrow>
                   if user_answer \<noteq> [] then
                     (let (new_state, s1) = collect_answer_logic current_graph_state user_answer s;
                          s2 = s1\<lparr>graph_state := new_state\<rparr>;
                          (_, s3) = ask_question_logic (graph_state s2) s2
                      in (Rerun, s3))
                   else reset_button ev s
               | None \<Rightarrow> reset_button ev s)
            else reset_button ev s)
         else if current_phase = lit ''generate_report'' then
           (if \<not> report_generated s then
              (let s1 = s\<lparr>report_generated := True\<rparr> in
               case generate_report_logic model current_graph_state s1 of
                 Inl e \<Rightarrow> (Crashed e, s1)
               | Inr (_, s2, _) \<Rightarrow> (Rerun, s2\<lparr>interview_complete := True\<rparr>))
            else reset_button ev s)
         else reset_button ev s))"

text \<open>The sessions the flow can reach from a fresh one, whatever the model answers.\<close>

inductive reachable :: "session \<Rightarrow> bool" where
  init: "reachable init_session"
| step: "reachable s \<Longrightarrow> run_script model ev s = (oc, s') \<Longrightarrow> reachable s'"

section \<open>Transcripts and sample inputs\<close>

text \<open>
  The bot entry that the question presenter appends for answer count \<open>n\<close>, and the
  transcript of an interview in which the answers \<open>as\<close> followed questions
  \<open>n\<close>, \<open>n + 1\<close>, ... one by one. \<open>expected_transcript\<close> adds the question that is still
  open. These are used to state what the flow has written, not to define it.
\<close>

definition question_entry :: "nat \<Rightarrow> message" where
  "question_entry n =
     \<lparr>role = lit ''bot'',
      content = lit ''**Q'' @ str_nat (n + 1) @ lit '':** '' @ questions ! n\<rparr>"

fun interview_transcript :: "nat \<Rightarrow> pystr list \<Rightarrow> message list" where
  "interview_transcript n [] = []"
| "interview_transcript n (a # as) =
     question_entry n # \<lparr>role = lit ''user'', content = a\<rparr> # interview_transcript (Suc n) as"

definition expected_transcript :: "pystr list \<Rightarrow> message list" where
  "expected_transcript as =
     interview_transcript 0 as @ (if length as < 10 then [question_entry (length as)] else [])"

text \<open>
  What the flow maintains: before the first render the session is blank; afterwards the
  transcript is the expected one for the recorded answers, followed by one more bot entry
  (the report or the error message) once the report has been generated.
\<close>

definition flow_invariant :: "session \<Rightarrow> bool" where
  "flow_invariant s =
     (let as = get_answers (graph_state s) in
      if \<not> interview_started s then
        as = [] \<and> chat_history s = [] \<and> \<not> interview_complete s \<and> \<not> report_generated s
      else if report_generated s then
        interview_complete s \<and> length as = 10 \<and>
        (\<exists>e. chat_history s = interview_transcript 0 as @ [e] \<and>
             role e = lit ''bot'' \<and> hd (content e) \<noteq> 42)
      else
        \<not> interview_complete s \<and> length as \<le> 10 \<and> chat_history s = expected_transcript as)"

text \<open>A session after the first answer, and one in which the tenth answer has just been given.\<close>

definition demo_session :: session where
  "demo_session =
     \<lparr>graph_state = [lit ''answers'' \<mapsto> [lit ''Alex'']],
      chat_history =
        [\<lparr>role = lit ''bot'', content = lit ''**Q1:** What is your name?''\<rparr>,
         \<lparr>role = lit ''user'', content = lit ''Alex''\<rparr>,
         \<lparr>role = lit ''bot'', content = lit ''**Q2:** What is your professional background?''\<rparr>],
      interview_complete = False, report_generated = False, interview_started = True\<rparr>"

definition example_answers :: "pystr list" where
  "example_answers =
     [lit ''Alex'', lit ''Engineer'', lit ''Python'', lit ''Fast learner'', lit ''Impatient'',
      lit ''Migrated a DB under deadline'', lit ''Lead a team'', lit ''Exercise'',
      lit ''Listen first'', lit ''I deliver'']"

definition pending_session :: session where
  "pending_session =
     \<lparr>graph_state = [lit ''answers'' \<mapsto> example_answers],
      chat_history = interview_transcript 0 example_answers,
      interview_complete = False, report_generated = False, interview_started = True\<rparr>"

section \<open>Basic facts\<close>

lemma lit_eq_iff [simp]: "lit a = lit b \<longleftrightarrow> a = b"
  unfolding lit_def by (simp add: inj_map_eq_map inj_of_char)

lemma length_questions [simp]: "length questions = 10"
  by (simp add: questions_def)

lemma get_answers_upd [simp]: "get_answers (state(lit ''answers'' \<mapsto> xs)) = xs"
  by (simp add: get_answers_def)

lemma get_answers_single [simp]: "get_answers [lit ''answers'' \<mapsto> xs] = xs"
  by (simp add: get_answers_def)

subsection \<open>Trimming\<close>

lemma strip_split:
  "dropWhile py_isspace u = strip u @ rev (takeWhile py_isspace (rev (dropWhile py_isspace u)))"
proof -
  let ?m = "dropWhile py_isspace u"
  have "rev (takeWhile py_isspace (rev ?m) @ dropWhile py_isspace (rev ?m)) = ?m"
    by (simp only: takeWhile_dropWhile_id rev_rev_ident)
  then show ?thesis
    by (simp only: rev_append strip_def)
qed

lemma strip_decomp:
  "\<exists>pre suf. u = pre @ strip u @ suf \<and> (\<forall>c\<in>set pre. py_isspace c) \<and> (\<forall>c\<in>set suf. py_isspace c)"
proof -
  let ?a = "takeWhile py_isspace u"
  let ?m = "dropWhile py_isspace u"
  let ?b = "rev (takeWhile py_isspace (rev ?m))"
  have "u = ?a @ ?m" by simp
  then have "u = ?a @ strip u @ ?b" using strip_split [of u] by simp
  moreover have "\<forall>c\<in>set ?a. py_isspace c" by (auto dest: set_takeWhileD)
  moreover have "\<forall>c\<in>set ?b. py_isspace c" by (auto dest: set_takeWhileD)
  ultimately show ?thesis by blast
qed

lemma strip_hd:
  assumes "strip u \<noteq> []" shows "\<not> py_isspace (hd (strip u))"
proof -
  let ?m = "dropWhile py_isspace u"
  have "hd ?m = hd (strip u)" using assms strip_split [of u] by (metis hd_append2)
  moreover have "?m \<noteq> []" using assms strip_split [of u] by (metis append_is_Nil_conv)
  ultimately show ?thesis using hd_dropWhile [of py_isspace u] by simp
qed

lemma strip_last: "strip u \<noteq> [] \<Longrightarrow> \<not> py_isspace (last (strip u))"
  unfolding strip_def
  by (metis hd_dropWhile last_rev rev_is_Nil_conv)

lemma strip_empty_iff: "strip u = [] \<longleftrightarrow> (\<forall>c\<in>set u. py_isspace c)"
proof
  assume "strip u = []"
  then have "\<forall>c\<in>set (dropWhile py_isspace u). py_isspace c"
    by (simp add: strip_def dropWhile_eq_Nil_conv)
  then have "dropWhile py_isspace u = []"
    using hd_dropWhile [of py_isspace u] hd_in_set by blast
  then show "\<forall>c\<in>set u. py_isspace c" by (simp add: dropWhile_eq_Nil_conv)
next
  assume "\<forall>c\<in>set u. py_isspace c"
  then have "dropWhile py_isspace u = []" by (simp add: dropWhile_eq_Nil_conv)
  then show "strip u = []" unfolding strip_def by (simp only: rev.simps dropWhile.simps)
qed

section \<open>Completion check and answer collector\<close>

text \<open>
  Claim C3: \<open>check_completion_condition\<close> depends on the state only through the number of
  answers: it returns the label \<open>ask_question\<close> when fewer than 10 answers are recorded and
  the label \<open>generate_report\<close> otherwise, and the two labels differ. The function returns
  a label only: it has no failure branch and returns no changed state.
\<close>

theorem check_completion_condition_spec:
  "check_completion_condition state =
     (if length (get_answers state) < 10 then lit ''ask_question'' else lit ''generate_report'')
   \<and> lit ''ask_question'' \<noteq> lit ''generate_report''"
  by (simp add: check_completion_condition_def)

text \<open>The completion check at one answer and at ten answers.\<close>

theorem check_completion_condition_witness:
  "check_completion_condition [lit ''answers'' \<mapsto> [lit ''Alex'']] = lit ''ask_question'' \<and>
   check_completion_condition [lit ''answers'' \<mapsto> replicate 10 (lit ''x'')] = lit ''generate_report''"
  using check_completion_condition_spec [of "[lit ''answers'' \<mapsto> [lit ''Alex'']]"]
        check_completion_condition_spec [of "[lit ''answers'' \<mapsto> replicate 10 (lit ''x'')]"]
  by simp

text \<open>
  Claim C2: the collector works on the input with its surrounding whitespace removed: the
  input is a run of whitespace, the trimmed text, and a run of whitespace, and a non-empty
  trimmed text neither starts nor ends with whitespace. When the trimmed text is non-empty,
  the returned state holds the old answers followed by the trimmed text and the transcript
  gains one user entry with the trimmed text. When it is empty, which is exactly when the
  input consists of whitespace only, state and session are returned as they were; the
  function has no failure branch.
\<close>

theorem collect_answer_logic_spec:
  "(\<exists>pre suf. user_input = pre @ strip user_input @ suf \<and>
       (\<forall>c\<in>set pre. py_isspace c) \<and> (\<forall>c\<in>set suf. py_isspace c)) \<and>
   (strip user_input \<noteq> [] \<longrightarrow>
      \<not> py_isspace (hd (strip user_input)) \<and> \<not> py_isspace (last (strip user_input)) \<and>
      collect_answer_logic state user_input s =
        (state(lit ''answers'' \<mapsto> get_answers state @ [strip user_input]),
         s\<lparr>chat_history := chat_history s @
              [\<lparr>role = lit ''user'', content = strip user_input\<rparr>]\<rparr>) \<and>
      get_answers (fst (collect_answer_logic state user_input s)) =
        get_answers state @ [strip user_input]) \<and>
   (strip user_input = [] \<longrightarrow> collect_answer_logic state user_input s = (state, s)) \<and>
   (strip user_input = [] \<longleftrightarrow> (\<forall>c\<in>set user_input. py_isspace c))"
  using strip_decomp [of user_input] strip_hd [of user_input] strip_last [of user_input]
    strip_empty_iff [of user_input]
  by (simp add: collect_answer_logic_def Let_def)

text \<open>The collector on a padded answer and on a whitespace-only submission.\<close>

theorem collect_answer_logic_witness:
  "collect_answer_logic [lit ''answers'' \<mapsto> [lit ''Alex'']] (lit ''  Engineer '' @ [9, 10]) init_session =
     ([lit ''answers'' \<mapsto> [lit ''Alex'', lit ''Engineer'']],
      init_session\<lparr>chat_history := [\<lparr>role = lit ''user'', content = lit ''Engineer''\<rparr>]\<rparr>) \<and>
   collect_answer_logic [lit ''answers'' \<mapsto> [lit ''Alex'']] (lit ''  '' @ [160, 8232]) init_session =
     ([lit ''answers'' \<mapsto> [lit ''Alex'']], init_session)"
proof -
  have a: "strip (lit ''  Engineer '' @ [9, 10]) = lit ''Engineer''"
    by (simp add: strip_def lit_def py_isspace_def)
  have b: "strip (lit ''  '' @ [160, 8232]) = []"
    by (simp add: strip_def lit_def py_isspace_def)
  have c: "lit ''Engineer'' \<noteq> []" by (simp add: lit_def)
  show ?thesis
    using collect_answer_logic_spec [of "lit ''  Engineer '' @ [9, 10]" "[lit ''answers'' \<mapsto> [lit ''Alex'']]" init_session]
      collect_answer_logic_spec [of "lit ''  '' @ [160, 8232]" "[lit ''answers'' \<mapsto> [lit ''Alex'']]" init_session]
    by (simp add: a b c init_session_def)
qed

section \<open>The flow, branch by branch\<close>

lemma get_answers_init [simp]: "get_answers (graph_state init_session) = []"
  by (simp add: init_session_def get_answers_def)

lemma ask_question_logic_fst [simp]: "fst (ask_question_logic state s) = state"
  by (simp add: ask_question_logic_def Let_def)

lemma ask_question_logic_graph_state [simp]:
  "graph_state (snd (ask_question_logic state s)) = graph_state s"
  by (simp add: ask_question_logic_def Let_def)

lemma collect_answer_logic_graph_state [simp]:
  "graph_state (snd (collect_answer_logic state t s)) = graph_state s"
  by (simp add: collect_answer_logic_def Let_def)

lemma collect_answer_logic_length:
  "length (get_answers (fst (collect_answer_logic state t s))) =
     (if strip t \<noteq> [] then Suc (length (get_answers state)) else length (get_answers state))"
  by (simp add: collect_answer_logic_def Let_def)

lemma reset_session_init: "reset_session s = init_session"
  by (simp add: reset_session_def init_session_def)

lemma generate_report_logic_graph_state:
  "generate_report_logic model state s = Inr (st', s', ps) \<Longrightarrow> graph_state s' = graph_state s"
  by (auto simp: generate_report_logic_def Let_def split: if_splits sum.splits)

lemma reset_button_cases:
  "reset_button ev s = (if ev = ResetClick then (Rerun, init_session) else (Finished, s))"
  by (cases ev) (simp_all add: reset_button_def button_def reset_session_init)

lemma run_script_start:
  "\<not> interview_started s \<Longrightarrow> \<not> interview_complete s \<Longrightarrow>
   run_script model ev s =
     (Rerun, snd (ask_question_logic (graph_state s) (s\<lparr>interview_started := True\<rparr>)))"
  by (simp add: run_script_def Let_def)

lemma run_script_submit:
  "interview_started s \<or> interview_complete s \<Longrightarrow>
   length (get_answers (graph_state s)) < 10 \<Longrightarrow> t \<noteq> [] \<Longrightarrow>
   run_script model (Submit t) s =
     (Rerun, snd (ask_question_logic (fst (collect_answer_logic (graph_state s) t s))
                   ((snd (collect_answer_logic (graph_state s) t s))
                      \<lparr>graph_state := fst (collect_answer_logic (graph_state s) t s)\<rparr>)))"
  by (auto simp: run_script_def Let_def check_completion_condition_def chat_input_def
        case_prod_beta)

lemma run_script_asking_idle:
  "interview_started s \<or> interview_complete s \<Longrightarrow>
   length (get_answers (graph_state s)) < 10 \<Longrightarrow>
   (\<forall>t'. ev = Submit t' \<longrightarrow> t' = []) \<Longrightarrow>
   run_script model ev s = reset_button ev s"
  by (cases ev) (auto simp: run_script_def Let_def check_completion_condition_def chat_input_def)

lemma run_script_report:
  "interview_started s \<or> interview_complete s \<Longrightarrow>
   10 \<le> length (get_answers (graph_state s)) \<Longrightarrow> \<not> report_generated s \<Longrightarrow>
   run_script model ev s =
     (case generate_report_logic model (graph_state s) (s\<lparr>report_generated := True\<rparr>) of
        Inl e \<Rightarrow> (Crashed e, s\<lparr>report_generated := True\<rparr>)
      | Inr r \<Rightarrow> (Rerun, (fst (snd r))\<lparr>interview_complete := True\<rparr>))"
  by (auto simp: run_script_def Let_def check_completion_condition_def case_prod_beta
        split: sum.splits)

lemma run_script_done:
  "interview_started s \<or> interview_complete s \<Longrightarrow>
   10 \<le> length (get_answers (graph_state s)) \<Longrightarrow> report_generated s \<Longrightarrow>
   run_script model ev s = reset_button ev s"
  by (auto simp: run_script_def Let_def check_completion_condition_def)

lemma run_script_answers:
  assumes "length (get_answers (graph_state s)) \<le> 10"
  shows "length (get_answers (graph_state (snd (run_script model ev s)))) \<le> 10"
proof (cases "\<not> interview_started s \<and> \<not> interview_complete s")
  case True
  then show ?thesis using assms by (simp add: run_script_start)
next
  case sc: False
  show ?thesis
  proof (cases "length (get_answers (graph_state s)) < 10")
    case lt: True
    show ?thesis
    proof (cases "\<exists>t. ev = Submit t \<and> t \<noteq> []")
      case True
      then obtain t where "ev = Submit t" "t \<noteq> []" by blast
      then show ?thesis using sc lt
        by (simp add: run_script_submit collect_answer_logic_length)
    next
      case False
      then have "run_script model ev s = reset_button ev s"
        using sc lt by (intro run_script_asking_idle) auto
      then show ?thesis using assms by (simp add: reset_button_cases)
    qed
  next
    case ge: False
    show ?thesis
    proof (cases "report_generated s")
      case True
      then have "run_script model ev s = reset_button ev s"
        using sc ge by (intro run_script_done) auto
      then show ?thesis using assms by (simp add: reset_button_cases)
    next
      case False
      then show ?thesis using sc ge assms
        by (auto simp: run_script_report split: sum.splits
              dest: generate_report_logic_graph_state)
    qed
  qed
qed

text \<open>
  Claim C1: in every session reachable from the initial one by runs of the script (the
  first render, answer submissions, report generation, reset), the number of answers is at
  most 10 and at most the length of the question list.
\<close>

theorem answers_never_exceed_questions:
  "reachable s \<Longrightarrow>
     length (get_answers (graph_state s)) \<le> 10 \<and>
     length (get_answers (graph_state s)) \<le> length questions"
proof (induction rule: reachable.induct)
  case init
  show ?case by simp
next
  case (step s model ev oc s')
  then show ?case using run_script_answers [of s model ev] by simp
qed

section \<open>The report generator\<close>

lemma qa_blocks_ok:
  "\<forall>i\<in>set is. i < length questions \<and> i < length answers \<Longrightarrow>
   \<exists>bs. qa_blocks answers is = Inr bs"
  by (induction "is") (auto simp: py_index_def)

lemma qa_blocks_Inr:
  "qa_blocks answers is = Inr bs \<Longrightarrow> \<forall>i\<in>set is. i < length questions"
  by (induction "is" arbitrary: bs) (auto simp: py_index_def split: sum.splits if_splits)

lemma report_prompt_ok:
  "length answers \<le> 10 \<Longrightarrow> \<exists>p. report_prompt answers = Inr p"
  using qa_blocks_ok [of "[0..<length answers]" answers]
  by (auto simp: report_prompt_def Let_def)

lemma report_prompt_fail:
  assumes "10 < length answers"
  shows "report_prompt answers = Inl IndexError"
proof (cases "qa_blocks answers [0..<length answers]")
  case (Inl e)
  then show ?thesis by (cases e) (simp add: report_prompt_def)
next
  case (Inr bs)
  then have "\<forall>i\<in>set [0..<length answers]. i < length questions"
    by (rule qa_blocks_Inr)
  with assms show ?thesis by auto
qed

text \<open>
  Claim C6: when the report generator reaches the external call with prompt \<open>p\<close> and the
  call raises an exception with string representation \<open>e\<close>, the generator does not raise:
  it returns the state unchanged and appends exactly one bot entry, whose content is
  \<open>Error generating report: \<close> followed by \<open>e\<close>. In the flow, the run that generates the
  report then ends with \<open>report_generated\<close> and \<open>interview_complete\<close> both true.
\<close>

theorem report_generation_failure_is_caught:
  assumes "get_answers state \<noteq> []"
    and "report_prompt (get_answers state) = Inr p"
    and "model p = Inl e"
  shows "generate_report_logic model state s =
           Inr (state,
                s\<lparr>chat_history := chat_history s @
                   [\<lparr>role = lit ''bot'', content = lit ''Error generating report: '' @ e\<rparr>]\<rparr>,
                [p]) \<and>
         sublist e (lit ''Error generating report: '' @ e) \<and>
         (state = graph_state s \<and> (interview_started s \<or> interview_complete s) \<and>
          length (get_answers state) = 10 \<and> \<not> report_generated s \<longrightarrow>
            run_script model ev s =
              (Rerun,
               s\<lparr>report_generated := True,
                 chat_history := chat_history s @
                   [\<lparr>role = lit ''bot'', content = lit ''Error generating report: '' @ e\<rparr>],
                 interview_complete := True\<rparr>))"
proof -
  have g: "\<And>s. generate_report_logic model state s =
           Inr (state,
                s\<lparr>chat_history := chat_history s @
                   [\<lparr>role = lit ''bot'', content = lit ''Error generating report: '' @ e\<rparr>]\<rparr>,
                [p])"
    using assms by (simp add: generate_report_logic_def Let_def)
  have "run_script model ev s =
          (Rerun,
           s\<lparr>report_generated := True,
             chat_history := chat_history s @
               [\<lparr>role = lit ''bot'', content = lit ''Error generating report: '' @ e\<rparr>],
             interview_complete := True\<rparr>)"
    if "state = graph_state s" "interview_started s \<or> interview_complete s"
      "length (get_answers state) = 10" "\<not> report_generated s"
    using that g [of "s\<lparr>report_generated := True\<rparr>"]
    by (simp add: run_script_report)
  moreover have "sublist e (lit ''Error generating report: '' @ e)"
    by simp
  ultimately show ?thesis using g [of s] by blast
qed

text \<open>
  Claim C7: with no answers, the report generator appends the bot entry
  \<open>No answers collected. Cannot generate report.\<close>, sends no prompt to the external model,
  and returns the state unchanged.
\<close>

theorem empty_answers_no_report:
  "get_answers state = [] \<Longrightarrow>
   generate_report_logic model state s =
     Inr (state,
          s\<lparr>chat_history := chat_history s @
             [\<lparr>role = lit ''bot'',
               content = lit ''No answers collected. Cannot generate report.''\<rparr>]\<rparr>,
          [])"
  by (simp add: generate_report_logic_def)

section \<open>Reset and the bound on answers\<close>

text \<open>
  Claim C9: whatever the session was, the reset action leaves \<open>answers = []\<close>, an empty
  transcript and the three flags false: it yields the initial session. A run of the script
  that reaches the reset button on a click performs exactly this action.
\<close>

theorem reset_restores_initial_state:
  "reset_session s = init_session \<and>
   get_answers (graph_state (reset_session s)) = [] \<and>
   chat_history (reset_session s) = [] \<and>
   \<not> interview_started (reset_session s) \<and>
   \<not> interview_complete (reset_session s) \<and>
   \<not> report_generated (reset_session s) \<and>
   ((interview_started s \<or> interview_complete s) \<and>
    (length (get_answers (graph_state s)) < 10 \<or> report_generated s) \<longrightarrow>
      run_script model ResetClick s = (Rerun, reset_session s))"
proof -
  have "run_script model ResetClick s = reset_button ResetClick s"
    if "interview_started s \<or> interview_complete s"
      and "length (get_answers (graph_state s)) < 10 \<or> report_generated s"
  proof (cases "length (get_answers (graph_state s)) < 10")
    case True
    then show ?thesis using that by (intro run_script_asking_idle) auto
  next
    case False
    then show ?thesis using that by (intro run_script_done) auto
  qed
  then show ?thesis
    by (auto simp: reset_button_cases reset_session_init) (simp_all add: init_session_def)
qed

text \<open>
  Claim C10: the collector has no upper bound of its own. Whatever the number of answers
  already recorded, an input whose trimmed form is non-empty yields a state whose answers
  are the old ones followed by the trimmed text, one more than before; in particular a
  state with 10 answers becomes a state with 11. The bound comes from the flow: once 10 or
  more answers are recorded, a run of the script triggered by a submission leaves the
  graph state as it was.
\<close>

theorem collect_answer_logic_has_no_bound:
  "(strip user_input \<noteq> [] \<longrightarrow>
      get_answers (fst (collect_answer_logic state user_input s)) =
        get_answers state @ [strip user_input] \<and>
      length (get_answers (fst (collect_answer_logic state user_input s))) =
        length (get_answers state) + 1) \<and>
   (length (get_answers state) = 10 \<and> strip user_input \<noteq> [] \<longrightarrow>
      length (get_answers (fst (collect_answer_logic state user_input s))) = 11) \<and>
   (10 \<le> length (get_answers (graph_state s)) \<longrightarrow>
      graph_state (snd (run_script model (Submit user_input) s)) = graph_state s)"
proof -
  have "graph_state (snd (run_script model (Submit user_input) s)) = graph_state s"
    if ge: "10 \<le> length (get_answers (graph_state s))"
  proof (cases "\<not> interview_started s \<and> \<not> interview_complete s")
    case True
    then show ?thesis by (simp add: run_script_start)
  next
    case sc: False
    show ?thesis
    proof (cases "report_generated s")
      case True
      then have "run_script model (Submit user_input) s = reset_button (Submit user_input) s"
        using sc ge by (intro run_script_done) auto
      then show ?thesis by (simp add: reset_button_cases)
    next
      case False
      then show ?thesis using sc ge
        by (auto simp: run_script_report split: sum.splits
              dest: generate_report_logic_graph_state)
    qed
  qed
  moreover have "get_answers (fst (collect_answer_logic state user_input s)) =
      get_answers state @ [strip user_input]"
    if "strip user_input \<noteq> []"
    using that by (simp add: collect_answer_logic_def Let_def)
  ultimately show ?thesis by (simp add: collect_answer_logic_length)
qed

section \<open>What the presenter appends\<close>

lemma lit_Nil_iff [simp]: "lit a = [] \<longleftrightarrow> a = []"
  by (simp add: lit_def)

lemma question_entry_fields [simp]:
  "role (question_entry n) = lit ''bot''"
  "suffix (questions ! n) (content (question_entry n))"
  by (simp_all add: question_entry_def suffix_def)

lemma ask_question_logic_cases:
  "ask_question_logic state s =
     (if length (get_answers state) < 10 \<and>
         (chat_history s = [] \<or>
          \<not> (role (last (chat_history s)) = lit ''bot'' \<and>
             suffix (questions ! length (get_answers state)) (content (last (chat_history s)))))
      then (state, s\<lparr>chat_history := chat_history s @ [question_entry (length (get_answers state))]\<rparr>)
      else (state, s))"
  by (simp add: ask_question_logic_def Let_def question_entry_def)

lemma ask_question_logic_twice:
  "ask_question_logic state (snd (ask_question_logic state s)) = ask_question_logic state s"
  by (auto simp: ask_question_logic_cases)

lemma question_entry_1: "question_entry 0 = \<lparr>role = lit ''bot'', content = lit ''**Q1:** What is your name?''\<rparr>"
  by (simp add: question_entry_def questions_def str_nat.simps lit_def)

lemma question_entry_2:
  "question_entry (Suc 0) =
     \<lparr>role = lit ''bot'', content = lit ''**Q2:** What is your professional background?''\<rparr>"
  by (simp add: question_entry_def questions_def str_nat.simps lit_def)

lemma first_render:
  "run_script model NoInput init_session =
     (Rerun, init_session\<lparr>interview_started := True,
        chat_history := [\<lparr>role = lit ''bot'', content = lit ''**Q1:** What is your name?''\<rparr>]\<rparr>)"
  by (simp add: run_script_start init_session_def ask_question_logic_cases get_answers_def
        question_entry_1)

lemma strip_Alex: "strip (lit '' Alex '') = lit ''Alex''"
  by (simp add: strip_def lit_def py_isspace_def)

lemma first_answer:
  "run_script model (Submit (lit '' Alex ''))
     (init_session\<lparr>interview_started := True,
        chat_history := [\<lparr>role = lit ''bot'', content = lit ''**Q1:** What is your name?''\<rparr>]\<rparr>) =
     (Rerun, demo_session)"
  by (simp add: run_script_submit init_session_def get_answers_def)
     (simp add: demo_session_def ask_question_logic_cases collect_answer_logic_def
        strip_Alex get_answers_def question_entry_2 Let_def)

lemma reachable_demo_session: "reachable demo_session"
  using reachable.step [OF reachable.step [OF reachable.init first_render] first_answer] .

text \<open>The session after the first answer is reachable and holds one answer.\<close>

theorem answers_never_exceed_questions_witness:
  "reachable demo_session \<and> length (get_answers (graph_state demo_session)) = 1 \<and>
   length (get_answers (graph_state demo_session)) \<le> 10 \<and>
   length (get_answers (graph_state demo_session)) \<le> length questions"
  using answers_never_exceed_questions [OF reachable_demo_session] reachable_demo_session
  by (simp add: demo_session_def)

text \<open>
  Claim C4 as stated does not hold: on a fresh session with no answers the presenter
  appends the entry \<open>**Q1:** What is your name?\<close>, which is not the first question text
  \<open>What is your name?\<close> itself.
\<close>

theorem question_entry_not_verbatim:
  "chat_history (snd (ask_question_logic [lit ''answers'' \<mapsto> []] init_session)) =
     [\<lparr>role = lit ''bot'', content = lit ''**Q1:** What is your name?''\<rparr>] \<and>
   questions ! 0 = lit ''What is your name?'' \<and>
   lit ''**Q1:** What is your name?'' \<noteq> questions ! 0"
  by (simp add: ask_question_logic_cases init_session_def question_entry_1)
     (simp add: questions_def)

section \<open>The transcript of a reachable session\<close>

lemma interview_transcript_snoc:
  "interview_transcript n (as @ [a]) =
     interview_transcript n as @ [question_entry (n + length as), \<lparr>role = lit ''user'', content = a\<rparr>]"
  by (induction as arbitrary: n) simp_all

lemma length_interview_transcript [simp]:
  "length (interview_transcript n as) = 2 * length as"
  by (induction as arbitrary: n) simp_all

lemma hd_question_entry: "hd (content (question_entry n)) = 42"
  by (simp add: question_entry_def lit_def)

lemma ask_after_question:
  "length (get_answers state) = n \<Longrightarrow> chat_history s = h @ [question_entry n] \<Longrightarrow>
   ask_question_logic state s = (state, s)"
  by (simp add: ask_question_logic_cases)

lemma ask_after_answer:
  "length (get_answers state) = n \<Longrightarrow> chat_history s = h @ [\<lparr>role = lit ''user'', content = a\<rparr>] \<Longrightarrow>
   ask_question_logic state s =
     (state, if n < 10 then s\<lparr>chat_history := chat_history s @ [question_entry n]\<rparr> else s)"
  by (simp add: ask_question_logic_cases)

lemma generate_report_logic_entry:
  assumes "get_answers state \<noteq> []" "length (get_answers state) \<le> 10"
  shows "\<exists>e ps. generate_report_logic model state s =
            Inr (state, s\<lparr>chat_history := chat_history s @ [e]\<rparr>, ps) \<and>
          role e = lit ''bot'' \<and> hd (content e) \<noteq> 42"
proof -
  obtain p where p: "report_prompt (get_answers state) = Inr p"
    using report_prompt_ok [OF assms(2)] by blast
  show ?thesis
  proof (cases "model p")
    case (Inl e)
    let ?e = "\<lparr>role = lit ''bot'', content = lit ''Error generating report: '' @ e\<rparr>"
    have "generate_report_logic model state s =
            Inr (state, s\<lparr>chat_history := chat_history s @ [?e]\<rparr>, [p])"
      using Inl assms p by (simp add: generate_report_logic_def)
    moreover have "role ?e = lit ''bot''" by simp
    moreover have "hd (content ?e) \<noteq> 42" by (simp add: lit_def)
    ultimately show ?thesis by blast
  next
    case (Inr r)
    let ?e = "\<lparr>role = lit ''bot'', content = lit ''### Final Evaluation Report:'' @ nl @ r\<rparr>"
    have "generate_report_logic model state s =
            Inr (state, s\<lparr>chat_history := chat_history s @ [?e]\<rparr>, [p])"
      using Inr assms p by (simp add: generate_report_logic_def)
    moreover have "role ?e = lit ''bot''" by simp
    moreover have "hd (content ?e) \<noteq> 42" by (simp add: lit_def)
    ultimately show ?thesis by blast
  qed
qed

lemma flow_invariant_init: "flow_invariant init_session"
  by (simp add: flow_invariant_def init_session_def get_answers_def)

lemma flow_invariant_reset_button:
  "flow_invariant s \<Longrightarrow> flow_invariant (snd (reset_button ev s))"
  by (simp add: reset_button_cases flow_invariant_init)

lemma flow_invariant_start:
  assumes "flow_invariant s" "\<not> interview_started s"
  shows "flow_invariant (snd (run_script model ev s))"
proof -
  from assms have b: "get_answers (graph_state s) = []" "chat_history s = []"
    "\<not> interview_complete s" "\<not> report_generated s"
    by (simp_all add: flow_invariant_def Let_def)
  then show ?thesis using assms(2)
    by (simp add: run_script_start ask_question_logic_cases flow_invariant_def
          expected_transcript_def)
qed

lemma flow_invariant_submit:
  assumes inv: "flow_invariant s" and st: "interview_started s"
    and lt: "length (get_answers (graph_state s)) < 10" and t: "t \<noteq> []"
  shows "flow_invariant (snd (run_script model (Submit t) s))"
proof -
  let ?as = "get_answers (graph_state s)"
  from inv st lt have nr: "\<not> report_generated s"
    by (auto simp: flow_invariant_def Let_def split: if_splits)
  with inv st have b: "\<not> interview_complete s" "chat_history s = expected_transcript ?as"
    by (simp_all add: flow_invariant_def Let_def)
  from b(2) lt have h: "chat_history s = interview_transcript 0 ?as @ [question_entry (length ?as)]"
    by (simp add: expected_transcript_def)
  show ?thesis
  proof (cases "strip t = []")
    case True
    then have c: "collect_answer_logic (graph_state s) t s = (graph_state s, s)"
      by (simp add: collect_answer_logic_def)
    have "ask_question_logic (graph_state s) (s\<lparr>graph_state := graph_state s\<rparr>) = (graph_state s, s)"
      using ask_after_question [OF refl, of s _ "graph_state s"] h by simp
    then show ?thesis using st lt t inv
      by (simp add: run_script_submit c)
  next
    case False
    let ?s1 = "s\<lparr>chat_history := chat_history s @ [\<lparr>role = lit ''user'', content = strip t\<rparr>]\<rparr>"
    let ?g = "(graph_state s)(lit ''answers'' \<mapsto> ?as @ [strip t])"
    have c: "collect_answer_logic (graph_state s) t s = (?g, ?s1)"
      using False by (simp add: collect_answer_logic_def Let_def)
    have h1: "chat_history (?s1\<lparr>graph_state := ?g\<rparr>) = interview_transcript 0 (?as @ [strip t])"
      using h by (simp add: interview_transcript_snoc)
    have a: "ask_question_logic ?g (?s1\<lparr>graph_state := ?g\<rparr>) =
               (?g, if Suc (length ?as) < 10
                    then ?s1\<lparr>graph_state := ?g,
                           chat_history := interview_transcript 0 (?as @ [strip t]) @
                             [question_entry (Suc (length ?as))]\<rparr>
                    else ?s1\<lparr>graph_state := ?g\<rparr>)"
      using ask_after_answer [of ?g "Suc (length ?as)" "?s1\<lparr>graph_state := ?g\<rparr>"
              "chat_history s" "strip t"] h1
      by simp
    have "snd (run_script model (Submit t) s) =
            snd (ask_question_logic ?g (?s1\<lparr>graph_state := ?g\<rparr>))"
      using st lt t by (simp add: run_script_submit c)
    then have r: "snd (run_script model (Submit t) s) =
        (if Suc (length ?as) < 10
         then ?s1\<lparr>graph_state := ?g,
                chat_history := interview_transcript 0 (?as @ [strip t]) @
                  [question_entry (Suc (length ?as))]\<rparr>
         else ?s1\<lparr>graph_state := ?g\<rparr>)"
      by (simp only: a snd_conv)
    show ?thesis using st lt nr b(1) h1
      unfolding r by (simp add: flow_invariant_def expected_transcript_def)
  qed
qed

lemma flow_invariant_report:
  assumes inv: "flow_invariant s" and st: "interview_started s"
    and ge: "10 \<le> length (get_answers (graph_state s))" and nr: "\<not> report_generated s"
  shows "flow_invariant (snd (run_script model ev s))"
proof -
  let ?as = "get_answers (graph_state s)"
  from inv st nr have b: "length ?as \<le> 10" "chat_history s = expected_transcript ?as"
    by (simp_all add: flow_invariant_def Let_def)
  with ge have len: "length ?as = 10" by simp
  then have ne: "?as \<noteq> []" by auto
  obtain e ps where g:
    "generate_report_logic model (graph_state s) (s\<lparr>report_generated := True\<rparr>) =
       Inr (graph_state s,
            s\<lparr>report_generated := True,
              chat_history := chat_history s @ [e]\<rparr>, ps)"
    "role e = lit ''bot''" "hd (content e) \<noteq> 42"
    using generate_report_logic_entry [OF ne b(1), of model "s\<lparr>report_generated := True\<rparr>"]
    by auto
  show ?thesis using st ge nr len b(2) g(2,3)
    by (simp add: run_script_report g(1) flow_invariant_def expected_transcript_def)
qed

lemma flow_invariant_step:
  assumes inv: "flow_invariant s"
  shows "flow_invariant (snd (run_script model ev s))"
proof (cases "interview_started s")
  case False
  then show ?thesis using inv by (rule flow_invariant_start [rotated])
next
  case st: True
  show ?thesis
  proof (cases "length (get_answers (graph_state s)) < 10")
    case lt: True
    show ?thesis
    proof (cases "\<exists>t. ev = Submit t \<and> t \<noteq> []")
      case True
      then show ?thesis using inv st lt by (auto intro: flow_invariant_submit)
    next
      case False
      then have "run_script model ev s = reset_button ev s"
        using st lt by (intro run_script_asking_idle) auto
      then show ?thesis using inv by (simp add: flow_invariant_reset_button)
    qed
  next
    case ge: False
    show ?thesis
    proof (cases "report_generated s")
      case True
      then have "run_script model ev s = reset_button ev s"
        using st ge by (intro run_script_done) auto
      then show ?thesis using inv by (simp add: flow_invariant_reset_button)
    next
      case False
      then show ?thesis using inv st ge by (intro flow_invariant_report) auto
    qed
  qed
qed

lemma reachable_flow_invariant: "reachable s \<Longrightarrow> flow_invariant s"
proof (induction rule: reachable.induct)
  case init
  show ?case by (rule flow_invariant_init)
next
  case (step s model ev oc s')
  then show ?case using flow_invariant_step [of s model ev] by simp
qed

lemma upt_10: "[0..<10] = [0, 1, 2, 3, 4, 5, 6, 7, 8, 9]"
  by (simp add: upt_rec)

lemma question_entries_distinct: "distinct (map question_entry [0..<10])"
  unfolding upt_10
  by (simp add: question_entry_def questions_def str_nat.simps lit_def)

lemma question_entry_inj:
  assumes "n < 10" "m < 10" "question_entry n = question_entry m"
  shows "n = m"
proof -
  have "inj_on question_entry (set [0..<10])"
    using question_entries_distinct by (simp only: distinct_map)
  then show ?thesis using assms by (auto dest: inj_onD)
qed

lemma user_entry_not_question [simp]:
  "\<lparr>role = lit ''user'', content = a\<rparr> \<noteq> question_entry n"
  by (simp add: question_entry_def)

lemma count_interview_transcript:
  "n < 10 \<Longrightarrow> k + length as \<le> 10 \<Longrightarrow>
   count_list (interview_transcript k as) (question_entry n) =
     (if k \<le> n \<and> n < k + length as then 1 else 0)"
proof (induction as arbitrary: k)
  case Nil
  then show ?case by simp
next
  case (Cons a as)
  have "question_entry k = question_entry n \<longleftrightarrow> k = n"
    using Cons.prems question_entry_inj [of k n] by auto
  then show ?case using Cons.prems Cons.IH [of "Suc k"] by auto
qed

lemma nth_interview_transcript:
  "i < length as \<Longrightarrow> interview_transcript k as ! (2 * i) = question_entry (k + i)"
proof (induction as arbitrary: k i)
  case Nil
  then show ?case by simp
next
  case (Cons a as)
  show ?case
  proof (cases i)
    case 0
    then show ?thesis by simp
  next
    case (Suc j)
    then show ?thesis using Cons.prems Cons.IH [of j "Suc k"] by simp
  qed
qed

lemma not_question_entry: "hd (content e) \<noteq> 42 \<Longrightarrow> e \<noteq> question_entry n"
  using hd_question_entry by metis

lemma reachable_no_duplicate_question:
  assumes "reachable s" "n < 10"
  shows "count_list (chat_history s) (question_entry n) \<le> 1"
proof -
  let ?as = "get_answers (graph_state s)"
  have inv: "flow_invariant s" using assms(1) by (rule reachable_flow_invariant)
  show ?thesis
  proof (cases "interview_started s")
    case False
    with inv show ?thesis by (simp add: flow_invariant_def Let_def)
  next
    case st: True
    show ?thesis
    proof (cases "report_generated s")
      case True
      with inv st obtain e where "length ?as = 10"
        "chat_history s = interview_transcript 0 ?as @ [e]" "hd (content e) \<noteq> 42"
        by (auto simp: flow_invariant_def Let_def)
      then show ?thesis using assms(2) not_question_entry [of e n]
        by (simp add: count_interview_transcript)
    next
      case False
      with inv st have "length ?as \<le> 10" "chat_history s = expected_transcript ?as"
        by (simp_all add: flow_invariant_def Let_def)
      then show ?thesis using assms(2)
        by (auto simp: expected_transcript_def count_interview_transcript
              dest: question_entry_inj)
    qed
  qed
qed

lemma reachable_nth_question:
  assumes "reachable s" "interview_started s" "n < 10" "n \<le> length (get_answers (graph_state s))"
  shows "chat_history s ! (2 * n) = question_entry n"
proof -
  let ?as = "get_answers (graph_state s)"
  have inv: "flow_invariant s" using assms(1) by (rule reachable_flow_invariant)
  show ?thesis
  proof (cases "report_generated s")
    case True
    with inv assms(2) obtain e where "length ?as = 10"
      "chat_history s = interview_transcript 0 ?as @ [e]"
      by (auto simp: flow_invariant_def Let_def)
    then show ?thesis using assms(3) nth_interview_transcript [of n ?as 0]
      by (simp add: nth_append)
  next
    case False
    with inv assms(2) have "chat_history s = expected_transcript ?as"
      by (simp add: flow_invariant_def Let_def)
    then show ?thesis using assms(3,4) nth_interview_transcript [of n ?as 0]
      by (cases "n < length ?as") (auto simp: expected_transcript_def nth_append)
  qed
qed

section \<open>The prompt for the example answers\<close>

lemma sublist_mid: "sublist x y \<Longrightarrow> sublist x (p @ y @ q)"
proof -
  assume "sublist x y"
  then obtain a b where "y = a @ x @ b" by (auto simp: sublist_def)
  then have "p @ y @ q = (p @ a) @ x @ (b @ q)" by simp
  then show ?thesis unfolding sublist_def by blast
qed

lemma sublist_join: "x \<in> set xs \<Longrightarrow> sublist x (join sep xs)"
proof (induction sep xs rule: join.induct)
  case (1 sep)
  then show ?case by simp
next
  case (2 sep y)
  then show ?case by simp
next
  case (3 sep y z zs)
  show ?case
  proof (cases "x = y")
    case True
    then show ?thesis by simp
  next
    case False
    with 3 have "sublist x (join sep (z # zs))" by simp
    then have "sublist x ((y @ sep) @ join sep (z # zs) @ [])" by (rule sublist_mid)
    then show ?thesis by simp
  qed
qed

lemma instruction_in_prompt:
  assumes "x \<in> set instruction_lines"
  shows "sublist x (prompt_template fa)"
proof -
  have "sublist x (join nl instruction_lines)" using assms by (rule sublist_join)
  then have "sublist x ((nl @ prompt_intro @ nl @ nl @ lit ''Please ensure the report includes:'' @ nl @ nl) @
      join nl instruction_lines @ (nl @ nl @ lit ''Interview Responses:'' @ nl @ fa @ nl))"
    by (rule sublist_mid)
  then show ?thesis by (simp add: prompt_template_def)
qed

lemma example_blocks:
  "qa_blocks example_answers [0..<length example_answers] =
     Inr [lit ''Q1: What is your name?'' @ nl @ lit ''A1: Alex'',
          lit ''Q2: What is your professional background?'' @ nl @ lit ''A2: Engineer'',
          lit ''Q3: What are your technical skills?'' @ nl @ lit ''A3: Python'',
          lit ''Q4: What are your strengths?'' @ nl @ lit ''A4: Fast learner'',
          lit ''Q5: What are your weaknesses?'' @ nl @ lit ''A5: Impatient'',
          lit ''Q6: Describe a challenging project you completed.'' @ nl @
            lit ''A6: Migrated a DB under deadline'',
          lit ''Q7: What are your career goals?'' @ nl @ lit ''A7: Lead a team'',
          lit ''Q8: How do you handle stress?'' @ nl @ lit ''A8: Exercise'',
          lit ''Q9: How do you work in a team?'' @ nl @ lit ''A9: Listen first'',
          lit ''Q10: Why should we hire you?'' @ nl @ lit ''A10: I deliver'']"
proof -
  have l: "length example_answers = 10" by (simp add: example_answers_def)
  show ?thesis
    unfolding l upt_10
    by (simp add: py_index_def questions_def example_answers_def str_nat.simps nl_def lit_def)
qed

lemma example_prompt:
  "report_prompt example_answers =
     Inr (prompt_template (join nl
       [lit ''Q1: What is your name?'' @ nl @ lit ''A1: Alex'',
        lit ''Q2: What is your professional background?'' @ nl @ lit ''A2: Engineer'',
        lit ''Q3: What are your technical skills?'' @ nl @ lit ''A3: Python'',
        lit ''Q4: What are your strengths?'' @ nl @ lit ''A4: Fast learner'',
        lit ''Q5: What are your weaknesses?'' @ nl @ lit ''A5: Impatient'',
        lit ''Q6: Describe a challenging project you completed.'' @ nl @
          lit ''A6: Migrated a DB under deadline'',
        lit ''Q7: What are your career goals?'' @ nl @ lit ''A7: Lead a team'',
        lit ''Q8: How do you handle stress?'' @ nl @ lit ''A8: Exercise'',
        lit ''Q9: How do you work in a team?'' @ nl @ lit ''A9: Listen first'',
        lit ''Q10: Why should we hire you?'' @ nl @ lit ''A10: I deliver'']))"
  unfolding report_prompt_def example_blocks by (simp only: sum.case Let_def)

lemma example_answers_nonempty: "example_answers \<noteq> []"
  by (simp add: example_answers_def)

text \<open>
  Claim C8: for the ten example answers and an external call that returns \<open>REPORT_X\<close>, the
  report generator sends one prompt and appends the bot entry
  \<open>### Final Evaluation Report:\<close>, a newline and \<open>REPORT_X\<close>, which contains \<open>REPORT_X\<close>.
  The prompt ends with the ten question/answer blocks in order, each followed by a
  newline, and contains each of the five numbered instructions (Introduction, Strengths,
  Weaknesses or Areas for Improvement, Overall Impression, Recommendation).
\<close>

theorem report_for_example_answers:
  assumes "get_answers state =
     [lit ''Alex'', lit ''Engineer'', lit ''Python'', lit ''Fast learner'', lit ''Impatient'',
      lit ''Migrated a DB under deadline'', lit ''Lead a team'', lit ''Exercise'',
      lit ''Listen first'', lit ''I deliver'']"
  shows "\<exists>prompt pre.
     generate_report_logic (\<lambda>p. Inr (lit ''REPORT_X'')) state s =
       Inr (state,
            s\<lparr>chat_history := chat_history s @
               [\<lparr>role = lit ''bot'',
                 content = lit ''### Final Evaluation Report:'' @ nl @ lit ''REPORT_X''\<rparr>]\<rparr>,
            [prompt]) \<and>
     sublist (lit ''REPORT_X'') (lit ''### Final Evaluation Report:'' @ nl @ lit ''REPORT_X'') \<and>
     prompt = pre @
       lit ''Q1: What is your name?'' @ nl @ lit ''A1: Alex'' @ nl @
       lit ''Q2: What is your professional background?'' @ nl @ lit ''A2: Engineer'' @ nl @
       lit ''Q3: What are your technical skills?'' @ nl @ lit ''A3: Python'' @ nl @
       lit ''Q4: What are your strengths?'' @ nl @ lit ''A4: Fast learner'' @ nl @
       lit ''Q5: What are your weaknesses?'' @ nl @ lit ''A5: Impatient'' @ nl @
       lit ''Q6: Describe a challenging project you completed.'' @ nl @
         lit ''A6: Migrated a DB under deadline'' @ nl @
       lit ''Q7: What are your career goals?'' @ nl @ lit ''A7: Lead a team'' @ nl @
       lit ''Q8: How do you handle stress?'' @ nl @ lit ''A8: Exercise'' @ nl @
       lit ''Q9: How do you work in a team?'' @ nl @ lit ''A9: Listen first'' @ nl @
       lit ''Q10: Why should we hire you?'' @ nl @ lit ''A10: I deliver'' @ nl \<and>
     sublist (lit ''1. **Introduction** '' @ em_dash @
       lit '' Briefly introduce the candidate and the interview context.'') prompt \<and>
     sublist (lit ''2. **Strengths** '' @ em_dash @
       lit '' Highlight key strengths observed from the responses.'') prompt \<and>
     sublist (lit ''3. **Weaknesses or Areas for Improvement** '' @ em_dash @
       lit '' Mention any concerns or gaps noted during the interview.'') prompt \<and>
     sublist (lit ''4. **Overall Impression** '' @ em_dash @
       lit '' Summarize how the candidate presented themselves professionally.'') prompt \<and>
     sublist (lit ''5. **Recommendation** '' @ em_dash @
       lit '' Conclude with your recommendation on the candidate'' @ right_quote @
       lit ''s suitability for the role (e.g., move forward to next round, strong hire, needs more evaluation, etc.).'') prompt"
proof -
  let ?blocks = "[lit ''Q1: What is your name?'' @ nl @ lit ''A1: Alex'',
        lit ''Q2: What is your professional background?'' @ nl @ lit ''A2: Engineer'',
        lit ''Q3: What are your technical skills?'' @ nl @ lit ''A3: Python'',
        lit ''Q4: What are your strengths?'' @ nl @ lit ''A4: Fast learner'',
        lit ''Q5: What are your weaknesses?'' @ nl @ lit ''A5: Impatient'',
        lit ''Q6: Describe a challenging project you completed.'' @ nl @
          lit ''A6: Migrated a DB under deadline'',
        lit ''Q7: What are your career goals?'' @ nl @ lit ''A7: Lead a team'',
        lit ''Q8: How do you handle stress?'' @ nl @ lit ''A8: Exercise'',
        lit ''Q9: How do you work in a team?'' @ nl @ lit ''A9: Listen first'',
        lit ''Q10: Why should we hire you?'' @ nl @ lit ''A10: I deliver'']"
  let ?prompt = "prompt_template (join nl ?blocks)"
  let ?pre = "nl @ prompt_intro @ nl @ nl @ lit ''Please ensure the report includes:'' @ nl @ nl @
     join nl instruction_lines @ nl @ nl @ lit ''Interview Responses:'' @ nl"
  have a: "get_answers state = example_answers"
    using assms by (simp only: example_answers_def)
  have "generate_report_logic (\<lambda>p. Inr (lit ''REPORT_X'')) state s =
       Inr (state,
            s\<lparr>chat_history := chat_history s @
               [\<lparr>role = lit ''bot'',
                 content = lit ''### Final Evaluation Report:'' @ nl @ lit ''REPORT_X''\<rparr>]\<rparr>,
            [?prompt])"
    unfolding generate_report_logic_def a
    by (simp only: Let_def example_prompt example_answers_nonempty if_False sum.case)
  moreover have "sublist (lit ''REPORT_X'') (lit ''### Final Evaluation Report:'' @ nl @ lit ''REPORT_X'')"
    using sublist_append_leftI [of "lit ''REPORT_X''" "lit ''### Final Evaluation Report:'' @ nl"]
    by (simp only: append_assoc)
  moreover have "?prompt = ?pre @
       lit ''Q1: What is your name?'' @ nl @ lit ''A1: Alex'' @ nl @
       lit ''Q2: What is your professional background?'' @ nl @ lit ''A2: Engineer'' @ nl @
       lit ''Q3: What are your technical skills?'' @ nl @ lit ''A3: Python'' @ nl @
       lit ''Q4: What are your strengths?'' @ nl @ lit ''A4: Fast learner'' @ nl @
       lit ''Q5: What are your weaknesses?'' @ nl @ lit ''A5: Impatient'' @ nl @
       lit ''Q6: Describe a challenging project you completed.'' @ nl @
         lit ''A6: Migrated a DB under deadline'' @ nl @
       lit ''Q7: What are your career goals?'' @ nl @ lit ''A7: Lead a team'' @ nl @
       lit ''Q8: How do you handle stress?'' @ nl @ lit ''A8: Exercise'' @ nl @
       lit ''Q9: How do you work in a team?'' @ nl @ lit ''A9: Listen first'' @ nl @
       lit ''Q10: Why should we hire you?'' @ nl @ lit ''A10: I deliver'' @ nl"
    by (simp only: prompt_template_def join.simps append_assoc)
  moreover have "\<And>x. x \<in> set instruction_lines \<Longrightarrow> sublist x ?prompt"
    by (rule instruction_in_prompt)
  then have "sublist (lit ''1. **Introduction** '' @ em_dash @
       lit '' Briefly introduce the candidate and the interview context.'') ?prompt"
    "sublist (lit ''2. **Strengths** '' @ em_dash @
       lit '' Highlight key strengths observed from the responses.'') ?prompt"
    "sublist (lit ''3. **Weaknesses or Areas for Improvement** '' @ em_dash @
       lit '' Mention any concerns or gaps noted during the interview.'') ?prompt"
    "sublist (lit ''4. **Overall Impression** '' @ em_dash @
       lit '' Summarize how the candidate presented themselves professionally.'') ?prompt"
    "sublist (lit ''5. **Recommendation** '' @ em_dash @
       lit '' Conclude with your recommendation on the candidate'' @ right_quote @
       lit ''s suitability for the role (e.g., move forward to next round, strong hire, needs more evaluation, etc.).'') ?prompt"
    by (simp_all only: instruction_lines_def list.set insert_iff simp_thms)
  ultimately show ?thesis by blast
qed

lemma pending_answers [simp]: "get_answers (graph_state pending_session) = example_answers"
  by (simp add: pending_session_def)

lemma length_example_answers [simp]: "length example_answers = 10"
  by (simp add: example_answers_def)

lemma pending_flags [simp]:
  "interview_started pending_session" "\<not> interview_complete pending_session"
  "\<not> report_generated pending_session"
  by (simp_all add: pending_session_def)

lemma demo_fields [simp]:
  "interview_started demo_session" "\<not> interview_complete demo_session"
  "\<not> report_generated demo_session"
  "get_answers (graph_state demo_session) = [lit ''Alex'']"
  by (simp_all add: demo_session_def)

section \<open>The question presenter\<close>

text \<open>
  Claim C5: the question presenter returns its state unchanged and does not touch the
  answers. Calling it a second time on the result of the first call changes nothing, so
  the second call appends nothing. When fewer than 10 answers are recorded and the last
  transcript entry is not already a bot entry ending with the question, the two calls
  together append the question entry exactly once; otherwise they leave the transcript as
  it was. In every session the flow can reach, each question entry occurs at most once in
  the transcript.
\<close>

theorem ask_question_logic_idempotent:
  "fst (ask_question_logic state s) = state \<and>
   graph_state (snd (ask_question_logic state s)) = graph_state s \<and>
   ask_question_logic state (snd (ask_question_logic state s)) = ask_question_logic state s \<and>
   (length (get_answers state) < 10 \<and>
    (chat_history s = [] \<or>
     \<not> (role (last (chat_history s)) = lit ''bot'' \<and>
        suffix (questions ! length (get_answers state)) (content (last (chat_history s))))) \<longrightarrow>
      chat_history (snd (ask_question_logic state (snd (ask_question_logic state s)))) =
        chat_history s @ [question_entry (length (get_answers state))]) \<and>
   (\<not> (length (get_answers state) < 10 \<and>
    (chat_history s = [] \<or>
     \<not> (role (last (chat_history s)) = lit ''bot'' \<and>
        suffix (questions ! length (get_answers state)) (content (last (chat_history s)))))) \<longrightarrow>
      chat_history (snd (ask_question_logic state (snd (ask_question_logic state s)))) =
        chat_history s) \<and>
   (reachable s \<and> n < 10 \<longrightarrow> count_list (chat_history s) (question_entry n) \<le> 1)"
proof -
  have "chat_history (snd (ask_question_logic state s)) =
          (if length (get_answers state) < 10 \<and>
              (chat_history s = [] \<or>
               \<not> (role (last (chat_history s)) = lit ''bot'' \<and>
                  suffix (questions ! length (get_answers state)) (content (last (chat_history s)))))
           then chat_history s @ [question_entry (length (get_answers state))]
           else chat_history s)"
    by (simp add: ask_question_logic_cases)
  then show ?thesis
    using reachable_no_duplicate_question [of s n]
    by (simp only: ask_question_logic_twice ask_question_logic_fst ask_question_logic_graph_state)
       auto
qed

text \<open>Two calls after the first answer post the second question once.\<close>

theorem ask_question_logic_idempotent_witness:
  "ask_question_logic [lit ''answers'' \<mapsto> [lit ''Alex'']]
     (snd (ask_question_logic [lit ''answers'' \<mapsto> [lit ''Alex'']]
        (init_session\<lparr>chat_history := [\<lparr>role = lit ''user'', content = lit ''Alex''\<rparr>]\<rparr>))) =
   ask_question_logic [lit ''answers'' \<mapsto> [lit ''Alex'']]
        (init_session\<lparr>chat_history := [\<lparr>role = lit ''user'', content = lit ''Alex''\<rparr>]\<rparr>) \<and>
   chat_history (snd (ask_question_logic [lit ''answers'' \<mapsto> [lit ''Alex'']]
     (snd (ask_question_logic [lit ''answers'' \<mapsto> [lit ''Alex'']]
        (init_session\<lparr>chat_history := [\<lparr>role = lit ''user'', content = lit ''Alex''\<rparr>]\<rparr>))))) =
     [\<lparr>role = lit ''user'', content = lit ''Alex''\<rparr>,
      \<lparr>role = lit ''bot'', content = lit ''**Q2:** What is your professional background?''\<rparr>] \<and>
   reachable demo_session \<and>
   count_list (chat_history demo_session) (question_entry 1) \<le> 1"
  using ask_question_logic_idempotent [of "[lit ''answers'' \<mapsto> [lit ''Alex'']]"
      "init_session\<lparr>chat_history := [\<lparr>role = lit ''user'', content = lit ''Alex''\<rparr>]\<rparr>" 1]
    ask_question_logic_idempotent [of "[lit ''answers'' \<mapsto> [lit ''Alex'']]" demo_session 1]
    reachable_demo_session
  by (simp add: init_session_def question_entry_2 ask_question_logic_cases)

text \<open>
  Claim C4, amended: for every \<open>N\<close> in 1..10 (here \<open>n = N - 1\<close>), the bot entry that the
  question presenter appends when \<open>n\<close> answers are recorded has the content
  \<open>**Q\<close>\<open>N\<close>\<open>:** \<close> followed by the \<open>N\<close>th question text verbatim; in every started session the
  flow can reach, the \<open>N\<close>th question entry of the transcript (at index \<open>2 * n\<close>) is this
  entry. Its content ends with the question text and is not equal to it.
\<close>

theorem question_entry_is_prefixed_question:
  "(n < 10 \<and> length (get_answers state) = n \<and>
    (chat_history s = [] \<or>
     \<not> (role (last (chat_history s)) = lit ''bot'' \<and>
        suffix (questions ! n) (content (last (chat_history s))))) \<longrightarrow>
      ask_question_logic state s =
        (state,
         s\<lparr>chat_history := chat_history s @
            [\<lparr>role = lit ''bot'',
              content = lit ''**Q'' @ str_nat (n + 1) @ lit '':** '' @ questions ! n\<rparr>]\<rparr>)) \<and>
   (reachable s \<and> interview_started s \<and> n < 10 \<and> n \<le> length (get_answers (graph_state s)) \<longrightarrow>
      chat_history s ! (2 * n) =
        \<lparr>role = lit ''bot'',
         content = lit ''**Q'' @ str_nat (n + 1) @ lit '':** '' @ questions ! n\<rparr>) \<and>
   suffix (questions ! n) (lit ''**Q'' @ str_nat (n + 1) @ lit '':** '' @ questions ! n) \<and>
   lit ''**Q'' @ str_nat (n + 1) @ lit '':** '' @ questions ! n \<noteq> questions ! n"
  using reachable_nth_question [of s n]
  by (auto simp: ask_question_logic_cases question_entry_def suffix_def)

text \<open>The second question, appended by the presenter and found in a reachable session.\<close>

theorem question_entry_is_prefixed_question_witness:
  "ask_question_logic [lit ''answers'' \<mapsto> [lit ''Alex'']]
      (init_session\<lparr>chat_history := [\<lparr>role = lit ''user'', content = lit ''Alex''\<rparr>]\<rparr>) =
     ([lit ''answers'' \<mapsto> [lit ''Alex'']],
      init_session\<lparr>chat_history :=
        [\<lparr>role = lit ''user'', content = lit ''Alex''\<rparr>,
         \<lparr>role = lit ''bot'', content = lit ''**Q2:** What is your professional background?''\<rparr>]\<rparr>) \<and>
   reachable demo_session \<and>
   chat_history demo_session ! 2 =
     \<lparr>role = lit ''bot'', content = lit ''**Q2:** What is your professional background?''\<rparr>"
proof -
  have q: "lit ''**Q'' @ str_nat (1 + 1) @ lit '':** '' @ questions ! 1 =
           lit ''**Q2:** What is your professional background?''"
    by (simp add: questions_def str_nat.simps lit_def)
  show ?thesis
    using question_entry_is_prefixed_question [of 1 "[lit ''answers'' \<mapsto> [lit ''Alex'']]"
        "init_session\<lparr>chat_history := [\<lparr>role = lit ''user'', content = lit ''Alex''\<rparr>]\<rparr>"]
      question_entry_is_prefixed_question [of 1 "[lit ''answers'' \<mapsto> [lit ''Alex'']]" demo_session]
      reachable_demo_session
    unfolding q by (simp add: init_session_def)
qed

section \<open>Concrete runs of the report generator, the reset and the collector\<close>

text \<open>A model call that fails with \<open>timeout\<close> after the tenth answer.\<close>

theorem report_generation_failure_is_caught_witness:
  "generate_report_logic (\<lambda>p. Inl (lit ''timeout'')) (graph_state pending_session) pending_session =
     Inr (graph_state pending_session,
          pending_session\<lparr>chat_history := chat_history pending_session @
            [\<lparr>role = lit ''bot'', content = lit ''Error generating report: '' @ lit ''timeout''\<rparr>]\<rparr>,
          [prompt_template (join nl
       [lit ''Q1: What is your name?'' @ nl @ lit ''A1: Alex'',
        lit ''Q2: What is your professional background?'' @ nl @ lit ''A2: Engineer'',
        lit ''Q3: What are your technical skills?'' @ nl @ lit ''A3: Python'',
        lit ''Q4: What are your strengths?'' @ nl @ lit ''A4: Fast learner'',
        lit ''Q5: What are your weaknesses?'' @ nl @ lit ''A5: Impatient'',
        lit ''Q6: Describe a challenging project you completed.'' @ nl @
          lit ''A6: Migrated a DB under deadline'',
        lit ''Q7: What are your career goals?'' @ nl @ lit ''A7: Lead a team'',
        lit ''Q8: How do you handle stress?'' @ nl @ lit ''A8: Exercise'',
        lit ''Q9: How do you work in a team?'' @ nl @ lit ''A9: Listen first'',
        lit ''Q10: Why should we hire you?'' @ nl @ lit ''A10: I deliver''])]) \<and>
   run_script (\<lambda>p. Inl (lit ''timeout'')) NoInput pending_session =
     (Rerun,
      pending_session\<lparr>report_generated := True,
        chat_history := chat_history pending_session @
          [\<lparr>role = lit ''bot'', content = lit ''Error generating report: '' @ lit ''timeout''\<rparr>],
        interview_complete := True\<rparr>)"
proof -
  have a: "get_answers (graph_state pending_session) \<noteq> []"
    by (simp add: example_answers_nonempty)
  have b: "report_prompt (get_answers (graph_state pending_session)) = Inr (prompt_template (join nl
       [lit ''Q1: What is your name?'' @ nl @ lit ''A1: Alex'',
        lit ''Q2: What is your professional background?'' @ nl @ lit ''A2: Engineer'',
        lit ''Q3: What are your technical skills?'' @ nl @ lit ''A3: Python'',
        lit ''Q4: What are your strengths?'' @ nl @ lit ''A4: Fast learner'',
        lit ''Q5: What are your weaknesses?'' @ nl @ lit ''A5: Impatient'',
        lit ''Q6: Describe a challenging project you completed.'' @ nl @
          lit ''A6: Migrated a DB under deadline'',
        lit ''Q7: What are your career goals?'' @ nl @ lit ''A7: Lead a team'',
        lit ''Q8: How do you handle stress?'' @ nl @ lit ''A8: Exercise'',
        lit ''Q9: How do you work in a team?'' @ nl @ lit ''A9: Listen first'',
        lit ''Q10: Why should we hire you?'' @ nl @ lit ''A10: I deliver'']))"
    by (simp only: pending_answers example_prompt)
  show ?thesis
    using report_generation_failure_is_caught [OF a b, of "\<lambda>p. Inl (lit ''timeout'')" "lit ''timeout''"
        pending_session NoInput]
    by simp
qed

text \<open>The report generator on a fresh session.\<close>

theorem empty_answers_no_report_witness:
  "generate_report_logic (\<lambda>p. Inr (lit ''REPORT_X'')) [lit ''answers'' \<mapsto> []] init_session =
     Inr ([lit ''answers'' \<mapsto> []],
          init_session\<lparr>chat_history :=
             [\<lparr>role = lit ''bot'',
               content = lit ''No answers collected. Cannot generate report.''\<rparr>]\<rparr>,
          [])"
  using empty_answers_no_report [of "[lit ''answers'' \<mapsto> []]" "\<lambda>p. Inr (lit ''REPORT_X'')" init_session]
  by (simp add: init_session_def)

text \<open>The same run from the session in which the tenth answer has just been given.\<close>

theorem report_for_example_answers_witness:
  "\<exists>prompt.
     generate_report_logic (\<lambda>p. Inr (lit ''REPORT_X'')) (graph_state pending_session) pending_session =
       Inr (graph_state pending_session,
            pending_session\<lparr>chat_history := chat_history pending_session @
               [\<lparr>role = lit ''bot'',
                 content = lit ''### Final Evaluation Report:'' @ nl @ lit ''REPORT_X''\<rparr>]\<rparr>,
            [prompt]) \<and>
     sublist (lit ''Q10: Why should we hire you?'' @ nl @ lit ''A10: I deliver'') prompt \<and>
     sublist (lit ''1. **Introduction** '' @ em_dash @
       lit '' Briefly introduce the candidate and the interview context.'') prompt"
proof -
  have a: "get_answers (graph_state pending_session) =
     [lit ''Alex'', lit ''Engineer'', lit ''Python'', lit ''Fast learner'', lit ''Impatient'',
      lit ''Migrated a DB under deadline'', lit ''Lead a team'', lit ''Exercise'',
      lit ''Listen first'', lit ''I deliver'']"
    by (simp add: example_answers_def)
  from report_for_example_answers [OF a, of pending_session]
  obtain prompt pre where p:
    "generate_report_logic (\<lambda>p. Inr (lit ''REPORT_X'')) (graph_state pending_session) pending_session =
       Inr (graph_state pending_session,
            pending_session\<lparr>chat_history := chat_history pending_session @
               [\<lparr>role = lit ''bot'',
                 content = lit ''### Final Evaluation Report:'' @ nl @ lit ''REPORT_X''\<rparr>]\<rparr>,
            [prompt])"
    "prompt = pre @
       lit ''Q1: What is your name?'' @ nl @ lit ''A1: Alex'' @ nl @
       lit ''Q2: What is your professional background?'' @ nl @ lit ''A2: Engineer'' @ nl @
       lit ''Q3: What are your technical skills?'' @ nl @ lit ''A3: Python'' @ nl @
       lit ''Q4: What are your strengths?'' @ nl @ lit ''A4: Fast learner'' @ nl @
       lit ''Q5: What are your weaknesses?'' @ nl @ lit ''A5: Impatient'' @ nl @
       lit ''Q6: Describe a challenging project you completed.'' @ nl @
         lit ''A6: Migrated a DB under deadline'' @ nl @
       lit ''Q7: What are your career goals?'' @ nl @ lit ''A7: Lead a team'' @ nl @
       lit ''Q8: How do you handle stress?'' @ nl @ lit ''A8: Exercise'' @ nl @
       lit ''Q9: How do you work in a team?'' @ nl @ lit ''A9: Listen first'' @ nl @
       lit ''Q10: Why should we hire you?'' @ nl @ lit ''A10: I deliver'' @ nl"
    "sublist (lit ''1. **Introduction** '' @ em_dash @
       lit '' Briefly introduce the candidate and the interview context.'') prompt"
    by blast
  have "sublist (lit ''Q10: Why should we hire you?'' @ nl @ lit ''A10: I deliver'')
     ((pre @
       lit ''Q1: What is your name?'' @ nl @ lit ''A1: Alex'' @ nl @
       lit ''Q2: What is your professional background?'' @ nl @ lit ''A2: Engineer'' @ nl @
       lit ''Q3: What are your technical skills?'' @ nl @ lit ''A3: Python'' @ nl @
       lit ''Q4: What are your strengths?'' @ nl @ lit ''A4: Fast learner'' @ nl @
       lit ''Q5: What are your weaknesses?'' @ nl @ lit ''A5: Impatient'' @ nl @
       lit ''Q6: Describe a challenging project you completed.'' @ nl @
         lit ''A6: Migrated a DB under deadline'' @ nl @
       lit ''Q7: What are your career goals?'' @ nl @ lit ''A7: Lead a team'' @ nl @
       lit ''Q8: How do you handle stress?'' @ nl @ lit ''A8: Exercise'' @ nl @
       lit ''Q9: How do you work in a team?'' @ nl @ lit ''A9: Listen first'' @ nl) @
       (lit ''Q10: Why should we hire you?'' @ nl @ lit ''A10: I deliver'') @ nl)"
    by (rule sublist_appendI)
  then have "sublist (lit ''Q10: Why should we hire you?'' @ nl @ lit ''A10: I deliver'') prompt"
    unfolding p(2) by (simp only: append_assoc)
  with p(1,3) show ?thesis by blast
qed

text \<open>A reset click after the first answer.\<close>

theorem reset_restores_initial_state_witness:
  "reset_session demo_session = init_session \<and>
   get_answers (graph_state (reset_session demo_session)) = [] \<and>
   chat_history (reset_session demo_session) = [] \<and>
   run_script (\<lambda>p. Inr (lit ''REPORT_X'')) ResetClick demo_session = (Rerun, init_session)"
  using reset_restores_initial_state [of demo_session "\<lambda>p. Inr (lit ''REPORT_X'')"]
  by (simp add: init_session_def)

lemma strip_extra: "strip (lit ''extra'') = lit ''extra''"
  by (simp add: strip_def lit_def py_isspace_def)

text \<open>
  An eleventh answer and a twelfth: accepted by the collector; the eleventh is ignored by
  the flow.
\<close>

theorem collect_answer_logic_has_no_bound_witness:
  "length (get_answers (fst (collect_answer_logic (graph_state pending_session) (lit ''extra'')
      pending_session))) = 11 \<and>
   get_answers (fst (collect_answer_logic [lit ''answers'' \<mapsto> replicate 11 (lit ''x'')]
      (lit ''extra'') pending_session)) = replicate 11 (lit ''x'') @ [lit ''extra''] \<and>
   length (get_answers (fst (collect_answer_logic [lit ''answers'' \<mapsto> replicate 11 (lit ''x'')]
      (lit ''extra'') pending_session))) = 12 \<and>
   graph_state (snd (run_script (\<lambda>p. Inr (lit ''REPORT_X'')) (Submit (lit ''extra'')) pending_session)) =
     graph_state pending_session"
  using collect_answer_logic_has_no_bound [of "lit ''extra''" "graph_state pending_session"
      pending_session "\<lambda>p. Inr (lit ''REPORT_X'')"]
    collect_answer_logic_has_no_bound [of "lit ''extra''"
      "[lit ''answers'' \<mapsto> replicate 11 (lit ''x'')]"
      pending_session "\<lambda>p. Inr (lit ''REPORT_X'')"]
  by (simp add: strip_extra)

end
